theory Spec2Isabelle
  imports Complex_Main "HOL-Library.Multiset" "HOL-Library.List_Lexorder" "HOL-Library.Char_ord"
begin

section \<open>Genotype containers of pydigree (pydigree/genotypes.py)\<close>

text \<open>
  The exceptions the modelled code raises. \<open>NotMeaningfulError\<close> is the class the
  module declares itself; the others are Python's.
\<close>

datatype py_error = NotMeaningfulError | ValueError | IndexError | AttributeError

subsection \<open>Arrays of allele codes\<close>

text \<open>
  A one-dimensional numpy array holds elements of one dtype. The code only asks whether
  the dtype is an integer one (\<^verbatim>\<open>np.issubdtype(dtype, np.integer)\<close>), so two kinds of
  array are modelled: integer codes and string codes. The integers are unbounded here:
  no arithmetic is done on stored codes. An element read out of an array is an
  \<open>allele\<close>; an integer element never equals a string (Python's \<^verbatim>\<open>==\<close> between a
  numpy integer and a \<^verbatim>\<open>str\<close> is False), which is what equality of the datatype gives.
\<close>

datatype np_dtype = IntDtype | StrDtype

datatype allele = IntA int | StrA string

datatype ndarray = IntArr "int list" | StrArr "string list"

fun dtype_of :: "ndarray \<Rightarrow> np_dtype" where
  "dtype_of (IntArr xs) = IntDtype"
| "dtype_of (StrArr xs) = StrDtype"

fun shape0 :: "ndarray \<Rightarrow> nat" where
  "shape0 (IntArr xs) = length xs"
| "shape0 (StrArr xs) = length xs"

text \<open>Iterating over an array yields its elements in order.\<close>

fun tolist :: "ndarray \<Rightarrow> allele list" where
  "tolist (IntArr xs) = map IntA xs"
| "tolist (StrArr xs) = map StrA xs"

text \<open>\<^verbatim>\<open>np.zeros(n, dtype=dtype)\<close>: 0 for an integer dtype, the empty string for a string one.\<close>

fun zeros :: "nat \<Rightarrow> np_dtype \<Rightarrow> ndarray" where
  "zeros n IntDtype = IntArr (replicate n 0)"
| "zeros n StrDtype = StrArr (replicate n [])"

text \<open>
  \<^verbatim>\<open>arr[i] = x\<close> for an index \<open>i \<ge> 0\<close>: IndexError out of range. Storing an element of
  the other kind is answered with ValueError (an integer array refuses a string that is
  not a numeral); containers built by the constructor never do that.
\<close>

fun setitem :: "ndarray \<Rightarrow> nat \<Rightarrow> allele \<Rightarrow> py_error + ndarray" where
  "setitem (IntArr xs) i (IntA v) =
     (if i < length xs then Inr (IntArr (xs[i := v])) else Inl IndexError)"
| "setitem (StrArr xs) i (StrA s) =
     (if i < length xs then Inr (StrArr (xs[i := s])) else Inl IndexError)"
| "setitem (IntArr xs) i (StrA s) = Inl ValueError"
| "setitem (StrArr xs) i (IntA v) = Inl ValueError"

text \<open>
  Elementwise binary operations of numpy on two one-dimensional arrays broadcast: equal
  lengths pair up, a length-one operand is repeated against the other, and every other
  pair of lengths has no elementwise result (\<open>None\<close>).
\<close>

definition broadcastable :: "nat \<Rightarrow> nat \<Rightarrow> bool" where
  "broadcastable m n = (m = n \<or> m = 1 \<or> n = 1)"

definition broadcast2 :: "('a \<Rightarrow> 'b \<Rightarrow> 'c) \<Rightarrow> 'a list \<Rightarrow> 'b list \<Rightarrow> 'c list option" where
  "broadcast2 f xs ys =
     (if length xs = length ys then Some (map (\<lambda>(x, y). f x y) (zip xs ys))
      else if length xs = 1 then Some (map (f (hd xs)) ys)
      else if length ys = 1 then Some (map (\<lambda>x. f x (hd ys)) xs)
      else None)"

subsection \<open>Dense container: class GenotypedChromosome(np.ndarray)\<close>

text \<open>
  The class is a view of an ndarray. Its body defines \<^verbatim>\<open>__new__\<close>, four methods meant to
  disable ordering, and the property \<^verbatim>\<open>missing\<close>; every other operation, \<^verbatim>\<open>==\<close> included,
  is the one inherited from \<^verbatim>\<open>np.ndarray\<close>.
\<close>

definition GenotypedChromosome_methods :: "string list" where
  "GenotypedChromosome_methods =
     [''__new__'', ''__lt__'', ''__gt__'', ''__lte__'', ''__gte__'', ''missing'']"

text \<open>
  Python resolves an operator through the special method of its own fixed name:
  \<^verbatim>\<open><\<close> is \<^verbatim>\<open>__lt__\<close>, \<^verbatim>\<open>>\<close> is \<^verbatim>\<open>__gt__\<close>, \<^verbatim>\<open><=\<close> is \<^verbatim>\<open>__le__\<close>, \<^verbatim>\<open>>=\<close> is \<^verbatim>\<open>__ge__\<close>.
\<close>

datatype cmp_op = Lt | Gt | Le | Ge

fun special_method :: "cmp_op \<Rightarrow> string" where
  "special_method Lt = ''__lt__''"
| "special_method Gt = ''__gt__''"
| "special_method Le = ''__le__''"
| "special_method Ge = ''__ge__''"

fun holds :: "cmp_op \<Rightarrow> 'a::linorder \<Rightarrow> 'a \<Rightarrow> bool" where
  "holds Lt x y = (x < y)"
| "holds Gt x y = (x > y)"
| "holds Le x y = (x \<le> y)"
| "holds Ge x y = (x \<ge> y)"

text \<open>
  What an inherited numpy comparison answers: an elementwise mask, or \<open>NumpyFallback\<close>
  when numpy has no elementwise comparison for the operands and does not raise by
  itself in every release (an integer array against a string array; for \<^verbatim>\<open>==\<close> also
  lengths that do not broadcast). The class adds nothing for that case, and what numpy
  then does differs between its releases, so the model only names it.
\<close>

datatype np_result = Mask "bool list" | NumpyFallback

text \<open>
  The ordering comparisons of \<^verbatim>\<open>np.ndarray\<close>: elementwise with broadcasting; lengths that
  do not broadcast raise ValueError.
\<close>

fun ndarray_compare :: "cmp_op \<Rightarrow> ndarray \<Rightarrow> ndarray \<Rightarrow> py_error + np_result" where
  "ndarray_compare c (IntArr xs) (IntArr ys) =
     (case broadcast2 (holds c) xs ys of Some m \<Rightarrow> Inr (Mask m) | None \<Rightarrow> Inl ValueError)"
| "ndarray_compare c (StrArr xs) (StrArr ys) =
     (case broadcast2 (holds c) xs ys of Some m \<Rightarrow> Inr (Mask m) | None \<Rightarrow> Inl ValueError)"
| "ndarray_compare c (IntArr xs) (StrArr ys) = Inr NumpyFallback"
| "ndarray_compare c (StrArr xs) (IntArr ys) = Inr NumpyFallback"

text \<open>
  \<^verbatim>\<open>self <op> other\<close> on a GenotypedChromosome: the method the class defines under the
  operator's special name raises NotMeaningfulError; an operator whose special name the
  class does not define runs the inherited comparison.
\<close>

definition compare :: "cmp_op \<Rightarrow> ndarray \<Rightarrow> ndarray \<Rightarrow> py_error + np_result" where
  "compare c self other =
     (if special_method c \<in> set GenotypedChromosome_methods then Inl NotMeaningfulError
      else ndarray_compare c self other)"

text \<open>\<^verbatim>\<open>self == other\<close> on two dense containers: inherited, elementwise with broadcasting.\<close>

fun dense_eq :: "ndarray \<Rightarrow> ndarray \<Rightarrow> np_result" where
  "dense_eq (IntArr xs) (IntArr ys) =
     (case broadcast2 (=) xs ys of Some m \<Rightarrow> Mask m | None \<Rightarrow> NumpyFallback)"
| "dense_eq (StrArr xs) (StrArr ys) =
     (case broadcast2 (=) xs ys of Some m \<Rightarrow> Mask m | None \<Rightarrow> NumpyFallback)"
| "dense_eq (IntArr xs) (StrArr ys) = NumpyFallback"
| "dense_eq (StrArr xs) (IntArr ys) = NumpyFallback"

text \<open>
  The property \<^verbatim>\<open>missing\<close> of the dense container: \<^verbatim>\<open>self == 0\<close> for an integer dtype,
  \<^verbatim>\<open>self == ''\<close> otherwise.
\<close>

fun dense_missing :: "ndarray \<Rightarrow> bool list" where
  "dense_missing (IntArr xs) = map (\<lambda>x. x = 0) xs"
| "dense_missing (StrArr xs) = map (\<lambda>x. x = []) xs"

subsection \<open>Sparse container: class SparseGenotypedChromosome\<close>

record SparseGenotypedChromosome =
  dtype :: np_dtype
  size_sp :: nat
  non_refalleles :: "(nat \<times> allele) list"
  missingindices :: "nat list"

text \<open>
  \<^verbatim>\<open>__array2nonref\<close>: the reference code is 0 for an integer dtype and the string \<^verbatim>\<open>'0'\<close>
  otherwise; every element different from it is kept with its index.
\<close>

fun refcode :: "np_dtype \<Rightarrow> allele" where
  "refcode IntDtype = IntA 0"
| "refcode StrDtype = StrA ''0''"

definition array2nonref :: "np_dtype \<Rightarrow> ndarray \<Rightarrow> (nat \<times> allele) list" where
  "array2nonref dt data = filter (\<lambda>(i, x). x \<noteq> refcode dt) (enumerate 0 (tolist data))"

text \<open>\<^verbatim>\<open>__array2missing\<close>: the indices whose element equals the empty string, whatever the dtype.\<close>

definition array2missing :: "ndarray \<Rightarrow> nat list" where
  "array2missing data = map fst (filter (\<lambda>(i, x). x = StrA []) (enumerate 0 (tolist data)))"

definition SparseGenotypedChromosome_init :: "ndarray \<Rightarrow> SparseGenotypedChromosome" where
  "SparseGenotypedChromosome_init data =
     \<lparr> dtype = dtype_of data,
       size_sp = shape0 data,
       non_refalleles = array2nonref (dtype_of data) data,
       missingindices = array2missing data \<rparr>"

text \<open>
  The property \<^verbatim>\<open>missing\<close>: a mask of \<^verbatim>\<open>size\<close> False entries, set to True at the recorded
  indices (\<^verbatim>\<open>base[self.missingindices] = 1\<close>, IndexError if one is out of range).
\<close>

definition sparse_missing :: "SparseGenotypedChromosome \<Rightarrow> py_error + bool list" where
  "sparse_missing self =
     (let base = replicate (size_sp self) False in
      if list_all (\<lambda>i. i < length base) (missingindices self)
      then Inr (fold (\<lambda>i b. b[i := True]) (missingindices self) base)
      else Inl IndexError)"

text \<open>
  \<^verbatim>\<open>__eq__\<close>. The two index sets are built from the stored pairs. The first loop clears
  the mask at every index of the symmetric difference. The second loop runs over the
  intersection and reads \<^verbatim>\<open>self.non_refalleles[i]\<close> and \<^verbatim>\<open>other.non_refalleles[i]\<close>: list
  positions, not the pairs stored for marker \<open>i\<close>; a position past the end of either
  list is an IndexError. Python iterates a set in an order of its own; the index lists
  here are in order of first occurrence, and the outcome does not depend on the order
  (each step writes False at its own index only, and IndexError is the only error).
\<close>

fun clear_all :: "bool list \<Rightarrow> nat list \<Rightarrow> py_error + bool list" where
  "clear_all base [] = Inr base"
| "clear_all base (i # rest) =
     (if i < length base then clear_all (base[i := False]) rest else Inl IndexError)"

fun compare_shared ::
  "(nat \<times> allele) list \<Rightarrow> (nat \<times> allele) list \<Rightarrow> bool list \<Rightarrow> nat list \<Rightarrow> py_error + bool list" where
  "compare_shared a b base [] = Inr base"
| "compare_shared a b base (i # rest) =
     (if i < length a \<and> i < length b then
        (if a ! i \<noteq> b ! i then
           (if i < length base then compare_shared a b (base[i := False]) rest
            else Inl IndexError)
         else compare_shared a b base rest)
      else Inl IndexError)"

definition symmetric_difference :: "nat list \<Rightarrow> nat list \<Rightarrow> nat list" where
  "symmetric_difference xs ys =
     filter (\<lambda>i. i \<notin> set ys) xs @ filter (\<lambda>i. i \<notin> set xs) ys"

definition intersection :: "nat list \<Rightarrow> nat list \<Rightarrow> nat list" where
  "intersection xs ys = filter (\<lambda>i. i \<in> set ys) xs"

definition sparse_eq ::
  "SparseGenotypedChromosome \<Rightarrow> SparseGenotypedChromosome \<Rightarrow> py_error + bool list" where
  "sparse_eq self other =
     (if size_sp self \<noteq> size_sp other then Inl ValueError
      else
        let base = replicate (size_sp self) True;
            nonreflocs_a = remdups (map fst (non_refalleles self));
            nonreflocs_b = remdups (map fst (non_refalleles other))
        in case clear_all base (symmetric_difference nonreflocs_a nonreflocs_b) of
             Inl e \<Rightarrow> Inl e
           | Inr base' \<Rightarrow>
               compare_shared (non_refalleles self) (non_refalleles other) base'
                 (intersection nonreflocs_a nonreflocs_b))"

text \<open>
  \<^verbatim>\<open>todense\<close>. Its body names \<^verbatim>\<open>np.zeroes\<close>, \<^verbatim>\<open>self.nmark\<close> and \<^verbatim>\<open>self.nonref_alleles\<close>. Looking
  up a name that the module or the object does not have raises AttributeError, so the
  model keeps the names numpy offers to this file and the attributes an instance has,
  and looks the three names up in the order Python evaluates them. The rest of the body
  is what runs if the lookups succeed: a zero array overwritten at each stored pair.
\<close>

definition numpy_names :: "string list" where
  "numpy_names =
     [''ndarray'', ''asarray'', ''issubdtype'', ''integer'', ''zeros'', ''ones'', ''bool_'',
      ''logical_not'', ''array'', ''append'', ''uint8'', ''random'']"

definition sparse_attributes :: "string list" where
  "sparse_attributes =
     [''dtype'', ''size'', ''non_refalleles'', ''missingindices'', ''missing'', ''todense'']"

fun overwrite :: "ndarray \<Rightarrow> (nat \<times> allele) list \<Rightarrow> py_error + ndarray" where
  "overwrite arr [] = Inr arr"
| "overwrite arr ((i, x) # rest) =
     (case setitem arr i x of Inl e \<Rightarrow> Inl e | Inr arr' \<Rightarrow> overwrite arr' rest)"

definition todense :: "SparseGenotypedChromosome \<Rightarrow> py_error + ndarray" where
  "todense self =
     (if ''zeroes'' \<notin> set numpy_names then Inl AttributeError
      else if ''nmark'' \<notin> set sparse_attributes then Inl AttributeError
      else if ''nonref_alleles'' \<notin> set sparse_attributes then Inl AttributeError
      else overwrite (zeros (size_sp self) (dtype self)) (non_refalleles self))"

section \<open>Marker template: class ChromosomeTemplate\<close>

text \<open>
  The four parallel sequences and the chromosome's name. Python floats are modelled as
  reals: the code stores and compares them and does no arithmetic on them, and a
  comparison of two floats is exact.
\<close>

record ChromosomeTemplate =
  label :: "string option"
  genetic_map :: "real list"
  physical_map :: "int option list"
  frequencies :: "real list"
  labels :: "string option list"

definition ChromosomeTemplate_init :: "string option \<Rightarrow> ChromosomeTemplate" where
  "ChromosomeTemplate_init lab =
     \<lparr> label = lab, genetic_map = [], physical_map = [], frequencies = [], labels = [] \<rparr>"

definition nmark :: "ChromosomeTemplate \<Rightarrow> nat" where
  "nmark self = length (genetic_map self)"

text \<open>
  The \<^verbatim>\<open>frequency\<close> argument of \<^verbatim>\<open>add_genotype\<close>: \<^verbatim>\<open>None\<close>, something \<^verbatim>\<open>float()\<close> converts, or
  something it refuses. A refusal reaches the caller as a ValueError, either raised by
  \<^verbatim>\<open>float()\<close> itself or made from its TypeError (an integer too large for a float is an
  OverflowError instead, which the model does not tell apart), and it happens before
  any field is touched.
\<close>

datatype frequency_arg = FreqNone | FreqNumber real | FreqRefused

definition add_genotype ::
  "ChromosomeTemplate \<Rightarrow> frequency_arg \<Rightarrow> real \<Rightarrow> string option \<Rightarrow> int option
     \<Rightarrow> py_error + ChromosomeTemplate" where
  "add_genotype self frequency map_position lab bp =
     (case frequency of
        FreqRefused \<Rightarrow> Inl ValueError
      | _ \<Rightarrow>
          let f = (case frequency of FreqNumber x \<Rightarrow> x | _ \<Rightarrow> - 1) in
          Inr (self\<lparr> genetic_map := genetic_map self @ [map_position],
                     frequencies := frequencies self @ [f],
                     physical_map := physical_map self @ [bp],
                     labels := labels self @ [lab] \<rparr>))"

text \<open>
  \<^verbatim>\<open>set_frequency\<close>: \<^verbatim>\<open>self.frequencies[position] = frequency\<close> with an integer position
  and a number. A negative position counts from the end; out of range is an IndexError
  and nothing is written.
\<close>

definition set_frequency :: "ChromosomeTemplate \<Rightarrow> int \<Rightarrow> real \<Rightarrow> py_error + ChromosomeTemplate" where
  "set_frequency self position frequency =
     (let n = int (length (frequencies self));
          j = (if position < 0 then position + n else position)
      in if 0 \<le> j \<and> j < n
         then Inr (self\<lparr> frequencies := (frequencies self)[nat j := frequency] \<rparr>)
         else Inl IndexError)"

text \<open>
  A caller's sequence of the two mutating calls. A call that raises has written nothing
  (both raise before their first assignment), so the object is afterwards what it was.
\<close>

datatype template_call =
    AddGenotype frequency_arg real "string option" "int option"
  | SetFrequency int real

fun call :: "ChromosomeTemplate \<Rightarrow> template_call \<Rightarrow> py_error + ChromosomeTemplate" where
  "call self (AddGenotype frequency map_position lab bp) =
     add_genotype self frequency map_position lab bp"
| "call self (SetFrequency position frequency) = set_frequency self position frequency"

definition after_call :: "ChromosomeTemplate \<Rightarrow> template_call \<Rightarrow> ChromosomeTemplate" where
  "after_call self c = (case call self c of Inl e \<Rightarrow> self | Inr self' \<Rightarrow> self')"

definition equal_lengths :: "ChromosomeTemplate \<Rightarrow> bool" where
  "equal_lengths self =
     (length (physical_map self) = length (genetic_map self) \<and>
      length (labels self) = length (genetic_map self) \<and>
      length (frequencies self) = length (genetic_map self))"

subsection \<open>Generation under linkage equilibrium\<close>

text \<open>
  The uniform random numbers are an input of the model: \<open>random k\<close> is the \<open>k\<close>-th number
  that \<^verbatim>\<open>np.random.random\<close> hands out in the call, each in \<open>[0, 1)\<close>. One element of
  \<^verbatim>\<open>np.array(r > self.frequencies, dtype=np.uint8) + 1\<close> is \<open>allele_code\<close> of the draw and
  the frequency: the comparison as 0 or 1, plus 1 (so no 8-bit overflow can happen).
\<close>

definition allele_code :: "real \<Rightarrow> real \<Rightarrow> int" where
  "allele_code r f = (if r > f then 1 else 0) + 1"

text \<open>
  \<^verbatim>\<open>linkageequilibrium_chromosome\<close>: ValueError if a frequency is negative (unset);
  otherwise one draw per marker, compared elementwise with the frequencies. Lengths that
  do not broadcast make numpy's \<^verbatim>\<open>>\<close> raise ValueError.
\<close>

definition linkageequilibrium_chromosome ::
  "ChromosomeTemplate \<Rightarrow> (nat \<Rightarrow> real) \<Rightarrow> py_error + ndarray" where
  "linkageequilibrium_chromosome self random =
     (if list_ex (\<lambda>f. f < 0) (frequencies self) then Inl ValueError
      else
        let r = map random [0..<nmark self] in
        case broadcast2 allele_code r (frequencies self) of
          None \<Rightarrow> Inl ValueError
        | Some codes \<Rightarrow> Inr (IntArr codes))"

text \<open>
  \<^verbatim>\<open>linkageequilibrium_chromosomes\<close>: one draw of shape \<open>(nchrom, nmark)\<close>, filled row by
  row, every row compared with the frequencies (ValueError if the lengths do not
  broadcast, in which case the \<open>None\<close> branch below is the one never taken). There is no
  check for unset frequencies here.
\<close>

definition linkageequilibrium_chromosomes ::
  "ChromosomeTemplate \<Rightarrow> nat \<Rightarrow> (nat \<Rightarrow> real) \<Rightarrow> py_error + ndarray list" where
  "linkageequilibrium_chromosomes self nchrom random =
     (if broadcastable (nmark self) (length (frequencies self)) then
        Inr (map (\<lambda>j.
                case broadcast2 allele_code
                       (map (\<lambda>i. random (j * nmark self + i)) [0..<nmark self])
                       (frequencies self) of
                  Some codes \<Rightarrow> IntArr codes
                | None \<Rightarrow> IntArr [])
               [0..<nchrom])
      else Inl ValueError)"

text \<open>
  The share of \<open>n\<close> equally spaced draws \<open>0, 1/n, ..., (n-1)/n\<close> of \<open>[0, 1)\<close> that a marker
  of frequency \<open>f\<close> turns into allele code \<open>c\<close>. Its limit for growing \<open>n\<close> is the measure of
  the set of draws mapped to \<open>c\<close>.
\<close>

definition code_share :: "int \<Rightarrow> real \<Rightarrow> nat \<Rightarrow> real" where
  "code_share c f n =
     real (length (filter (\<lambda>k. allele_code (real k / real n) f = c) [0..<n])) / real n"

section \<open>Identity by state (pydigree/ibs.py)\<close>

text \<open>
  Modelled from the spec: the module pydigree/ibs.py, which defines \<^verbatim>\<open>ibs\<close> and
  \<^verbatim>\<open>chromwide_ibs\<close>, is not among the sources; only its test file is. The spec (4.4):
  a genotype is a pair of allele codes read as a two-element multiset; if either
  genotype consists entirely of the missing code the result is \<^verbatim>\<open>missing_value\<close>;
  otherwise it is the size of the intersection of the two multisets, capped at 2. The
  missing code is 0 for integer codes and the empty string for string codes.
\<close>

type_synonym genotype = "allele \<times> allele"

definition missing_code :: "allele \<Rightarrow> bool" where
  "missing_code a = (a = IntA 0 \<or> a = StrA [])"

definition all_missing :: "genotype \<Rightarrow> bool" where
  "all_missing g = (missing_code (fst g) \<and> missing_code (snd g))"

definition ibs :: "genotype \<Rightarrow> genotype \<Rightarrow> int option \<Rightarrow> int option" where
  "ibs genotype1 genotype2 missing_value =
     (if all_missing genotype1 \<or> all_missing genotype2 then missing_value
      else Some (int (min 2 (size (mset [fst genotype1, snd genotype1]
                                     \<inter># mset [fst genotype2, snd genotype2])))))"

text \<open>
  Modelled from the spec: \<^verbatim>\<open>chromwide_ibs\<close> of pydigree/ibs.py (not among the sources).
  The spec (4.4, 7): it takes four strands, each a dense or a sparse container, fails
  with a value error when their marker counts differ, materializes a dense view of each
  strand and applies \<^verbatim>\<open>ibs\<close> with the numeric \<^verbatim>\<open>missing_value\<close> at every marker. The
  dense view of a sparse container is its \<^verbatim>\<open>todense\<close>, which is the repository's code above.
\<close>

datatype container = Dense ndarray | Sparse SparseGenotypedChromosome

fun marker_count :: "container \<Rightarrow> nat" where
  "marker_count (Dense a) = shape0 a"
| "marker_count (Sparse s) = size_sp s"

fun dense_view :: "container \<Rightarrow> py_error + allele list" where
  "dense_view (Dense a) = Inr (tolist a)"
| "dense_view (Sparse s) = (case todense s of Inl e \<Rightarrow> Inl e | Inr a \<Rightarrow> Inr (tolist a))"

definition ibs_states :: "allele list \<Rightarrow> allele list \<Rightarrow> allele list \<Rightarrow> allele list \<Rightarrow> int \<Rightarrow> int list" where
  "ibs_states a b c d missing_value =
     map (\<lambda>(g1, g2). case ibs g1 g2 (Some missing_value) of Some v \<Rightarrow> v | None \<Rightarrow> missing_value)
       (zip (zip a b) (zip c d))"

definition chromwide_ibs ::
  "container \<Rightarrow> container \<Rightarrow> container \<Rightarrow> container \<Rightarrow> int \<Rightarrow> py_error + int list" where
  "chromwide_ibs a b c d missing_value =
     (if marker_count b = marker_count a \<and> marker_count c = marker_count a
         \<and> marker_count d = marker_count a
      then
        (case dense_view a of Inl e \<Rightarrow> Inl e | Inr a' \<Rightarrow>
        (case dense_view b of Inl e \<Rightarrow> Inl e | Inr b' \<Rightarrow>
        (case dense_view c of Inl e \<Rightarrow> Inl e | Inr c' \<Rightarrow>
        (case dense_view d of Inl e \<Rightarrow> Inl e | Inr d' \<Rightarrow>
          Inr (ibs_states a' b' c' d' missing_value)))))
      else Inl ValueError)"

section \<open>Auxiliary facts\<close>

subsection \<open>Multisets of two alleles\<close>

lemma shared_pair:
  "size (mset [a, b] \<inter># mset [c, d]) =
     (if a = c then (if b = d then 2 else 1)
      else if a = d then (if b = c then 2 else 1)
      else if b = c \<or> b = d then 1 else 0)"
  by (auto simp: inter_add_left1 inter_add_left2 inter_add_right1 inter_add_right2)

subsection \<open>Broadcasting\<close>

lemma broadcast2_same_length:
  "length ys = n \<Longrightarrow>
   broadcast2 f (map g [0..<n]) ys = Some (map (\<lambda>i. f (g i) (ys ! i)) [0..<n])"
  by (auto simp: broadcast2_def intro!: nth_equalityI)

lemma broadcast2_single_left: "broadcast2 f [x] ys = Some (map (f x) ys)"
proof (cases ys)
  case Nil
  then show ?thesis by (simp add: broadcast2_def)
next
  case (Cons y rest)
  then show ?thesis by (cases rest) (simp_all add: broadcast2_def)
qed

lemma broadcast2_single_right: "broadcast2 f xs [y] = Some (map (\<lambda>x. f x y) xs)"
proof (cases xs)
  case Nil
  then show ?thesis by (simp add: broadcast2_def)
next
  case (Cons x rest)
  then show ?thesis by (cases rest) (simp_all add: broadcast2_def)
qed

subsection \<open>The missing mask of the sparse container\<close>

lemma array2missing_int: "array2missing (IntArr xs) = []"
  by (auto simp: array2missing_def filter_empty_conv in_set_enumerate_eq)

lemma set_array2missing_str:
  "set (array2missing (StrArr xs)) = {i. i < length xs \<and> xs ! i = []}"
  by (auto simp: array2missing_def in_set_enumerate_eq image_iff)

lemma fold_set_true:
  "k < length base \<Longrightarrow> fold (\<lambda>i b. b[i := True]) idx base ! k = (base ! k \<or> k \<in> set idx)"
proof (induction idx arbitrary: base)
  case Nil
  then show ?case by simp
next
  case (Cons a idx)
  have "fold (\<lambda>i b. b[i := True]) (a # idx) base ! k
        = fold (\<lambda>i b. b[i := True]) idx (base[a := True]) ! k"
    by simp
  also have "\<dots> = (base[a := True] ! k \<or> k \<in> set idx)"
    using Cons.prems by (simp add: Cons.IH)
  also have "\<dots> = (base ! k \<or> k \<in> set (a # idx))"
    using Cons.prems by (cases "k = a") (auto simp: nth_list_update)
  finally show ?case .
qed

lemma length_fold_set_true: "length (fold (\<lambda>i b. b[i := True]) idx base) = length base"
  by (induction idx arbitrary: base) auto

text \<open>
  On string codes the sparse mask is the dense one: true exactly at the empty strings.
\<close>

lemma sparse_missing_str:
  "sparse_missing (SparseGenotypedChromosome_init (StrArr xs)) = Inr (dense_missing (StrArr xs))"
proof -
  have "list_all (\<lambda>i. i < length xs) (array2missing (StrArr xs))"
    by (simp add: list_all_iff set_array2missing_str)
  moreover have "fold (\<lambda>i b. b[i := True]) (array2missing (StrArr xs)) (replicate (length xs) False)
                 = map (\<lambda>x. x = []) xs"
    by (rule nth_equalityI) (simp_all add: length_fold_set_true fold_set_true set_array2missing_str)
  ultimately show ?thesis
    by (simp add: sparse_missing_def SparseGenotypedChromosome_init_def)
qed

text \<open>On integer codes no index is ever recorded, so the sparse mask is False everywhere.\<close>

lemma sparse_missing_int:
  "sparse_missing (SparseGenotypedChromosome_init (IntArr xs)) = Inr (replicate (length xs) False)"
  by (simp add: sparse_missing_def SparseGenotypedChromosome_init_def array2missing_int)

subsection \<open>Size checks\<close>

lemma sparse_eq_size_mismatch: "size_sp u \<noteq> size_sp v \<Longrightarrow> sparse_eq u v = Inl ValueError"
  by (simp add: sparse_eq_def)

lemma chromwide_size_mismatch:
  "\<not> (marker_count b = marker_count a \<and> marker_count c = marker_count a
        \<and> marker_count d = marker_count a)
   \<Longrightarrow> chromwide_ibs a b c d missing_value = Inl ValueError"
  by (simp only: chromwide_ibs_def if_False)

subsection \<open>The template's calls\<close>

lemma call_keeps: "equal_lengths t \<Longrightarrow> equal_lengths (after_call t c)"
  by (cases c) (auto simp: after_call_def equal_lengths_def add_genotype_def set_frequency_def Let_def
      split: frequency_arg.splits sum.splits if_splits)

lemma calls_keep: "equal_lengths t \<Longrightarrow> equal_lengths (foldl after_call t cs)"
  by (induction cs arbitrary: t) (simp_all add: call_keeps)

subsection \<open>Generated chromosomes, marker by marker\<close>

lemma generate_one:
  assumes "equal_lengths t" and "list_all (\<lambda>f. 0 \<le> f) (frequencies t)"
  shows "linkageequilibrium_chromosome t random =
           Inr (IntArr (map (\<lambda>i. allele_code (random i) (frequencies t ! i)) [0..<nmark t]))"
proof -
  have len: "length (frequencies t) = nmark t"
    using assms(1) by (simp add: equal_lengths_def nmark_def)
  have "\<not> list_ex (\<lambda>f. f < 0) (frequencies t)"
    using assms(2) by (auto simp: list_ex_iff list_all_iff)
  then show ?thesis
    by (simp add: linkageequilibrium_chromosome_def broadcast2_same_length[OF len])
qed

lemma generate_many:
  assumes "equal_lengths t"
  shows "linkageequilibrium_chromosomes t nchrom random =
           Inr (map (\<lambda>j. IntArr (map (\<lambda>i. allele_code (random (j * nmark t + i)) (frequencies t ! i))
                                   [0..<nmark t])) [0..<nchrom])"
proof -
  have len: "length (frequencies t) = nmark t"
    using assms(1) by (simp add: equal_lengths_def nmark_def)
  show ?thesis
    by (simp add: linkageequilibrium_chromosomes_def broadcastable_def len
        broadcast2_same_length[OF len])
qed

subsection \<open>Which draws give which code\<close>

lemma code2_draws: "0 \<le> f \<Longrightarrow> {x. 0 \<le> x \<and> x < 1 \<and> allele_code x f = 2} = {f<..<1}"
  by (auto simp: allele_code_def)

lemma filter_above: "filter (\<lambda>k. m < k) [0..<n] = [Suc m..<n]"
proof (induction n)
  case 0
  then show ?case by simp
next
  case (Suc n)
  then show ?case by (cases "m < n") (auto simp: upt_rec[of "Suc m" "Suc n"] not_less)
qed

lemma code2_grid:
  assumes "0 \<le> f" and "0 < n"
  shows "allele_code (real k / real n) f = 2 \<longleftrightarrow> nat \<lfloor>f * real n\<rfloor> < k"
proof -
  have "allele_code (real k / real n) f = 2 \<longleftrightarrow> f * real n < real k"
    using assms by (simp add: allele_code_def pos_less_divide_eq)
  also have "\<dots> \<longleftrightarrow> \<lfloor>f * real n\<rfloor> < int k"
    by (simp add: floor_less_iff)
  also have "\<dots> \<longleftrightarrow> nat \<lfloor>f * real n\<rfloor> < k"
    using assms by (simp add: nat_less_iff)
  finally show ?thesis .
qed

lemma code_share_2:
  assumes "0 \<le> f" and "0 < n"
  shows "code_share 2 f n = real (n - Suc (nat \<lfloor>f * real n\<rfloor>)) / real n"
proof -
  have "filter (\<lambda>k. allele_code (real k / real n) f = 2) [0..<n]
        = filter (\<lambda>k. nat \<lfloor>f * real n\<rfloor> < k) [0..<n]"
    using assms by (simp add: code2_grid)
  then show ?thesis
    by (simp add: code_share_def filter_above)
qed

text \<open>On a grid of \<open>n\<close> draws the share of code 2 is within \<open>1/n\<close> of \<open>1 - f\<close>.\<close>

lemma code_share_2_close:
  assumes "0 \<le> f" and "f \<le> 1" and "0 < n"
  shows "\<bar>code_share 2 f n - (1 - f)\<bar> \<le> 1 / real n"
proof -
  define m where "m = nat \<lfloor>f * real n\<rfloor>"
  have nonneg: "0 \<le> f * real n" using assms by simp
  have lo: "real m \<le> f * real n"
    using nonneg by (simp add: m_def)
  have hi: "f * real n < real m + 1"
    using nonneg unfolding m_def by linarith
  have le_n: "f * real n \<le> real n"
    using assms by (simp add: mult_left_le_one_le)
  have share: "code_share 2 f n = real (n - Suc m) / real n"
    using assms by (simp add: code_share_2 m_def)
  have npos: "0 < real n" using assms by simp
  show ?thesis
  proof (cases "Suc m \<le> n")
    case True
    then have "real (n - Suc m) = real n - real m - 1" by (simp add: of_nat_diff)
    then have "code_share 2 f n - (1 - f) = (f * real n - real m - 1) / real n"
      using npos by (simp add: share field_simps)
    moreover have "\<bar>f * real n - real m - 1\<bar> \<le> 1" using lo hi by linarith
    ultimately show ?thesis using npos by (simp add: divide_right_mono)
  next
    case False
    then have "real n \<le> real m" by simp
    with lo le_n have "f * real n = real n" by linarith
    then have one: "1 - f = 0" using npos by simp
    have "n - Suc m = 0" using False by simp
    then have "code_share 2 f n = 0" by (simp add: share)
    with one show ?thesis by simp
  qed
qed

lemma code_share_2_limit:
  assumes "0 \<le> f" and "f \<le> 1"
  shows "(\<lambda>n. code_share 2 f n) \<longlonglongrightarrow> 1 - f"
proof -
  have small: "(\<lambda>n. 1 / real n) \<longlonglongrightarrow> 0"
    by (rule lim_1_over_n)
  have "eventually (\<lambda>n. norm (code_share 2 f n - (1 - f)) \<le> norm (1 / real n) * 1) sequentially"
    using eventually_gt_at_top[of 0]
  proof eventually_elim
    case (elim n)
    then show ?case using code_share_2_close[OF assms, of n] by simp
  qed
  with small have "(\<lambda>n. code_share 2 f n - (1 - f)) \<longlonglongrightarrow> 0"
    by (rule tendsto_0_le)
  then show ?thesis by (simp only: LIM_zero_iff)
qed

lemma code_share_1:
  assumes "0 < n"
  shows "code_share 1 f n = 1 - code_share 2 f n"
proof -
  let ?P = "\<lambda>k. allele_code (real k / real n) f = 2"
  have "(\<lambda>k. allele_code (real k / real n) f = 1) = (\<lambda>k. \<not> ?P k)"
    by (auto simp: allele_code_def)
  then have "length (filter (\<lambda>k. allele_code (real k / real n) f = 1) [0..<n])
             + length (filter ?P [0..<n]) = n"
    using sum_length_filter_compl[of ?P "[0..<n]"] by simp
  then have "real (length (filter (\<lambda>k. allele_code (real k / real n) f = 1) [0..<n]))
             = real n - real (length (filter ?P [0..<n]))"
    by linarith
  then show ?thesis using assms by (simp add: code_share_def field_simps)
qed

lemma code_share_1_limit:
  assumes "0 \<le> f" and "f \<le> 1"
  shows "(\<lambda>n. code_share 1 f n) \<longlonglongrightarrow> f"
proof -
  have "(\<lambda>n. 1 - code_share 2 f n) \<longlonglongrightarrow> 1 - (1 - f)"
    by (intro tendsto_diff tendsto_const code_share_2_limit assms)
  then have "(\<lambda>n. 1 - code_share 2 f n) \<longlonglongrightarrow> f" by simp
  moreover have "eventually (\<lambda>n. 1 - code_share 2 f n = code_share 1 f n) sequentially"
    using eventually_gt_at_top[of 0]
  proof eventually_elim
    case (elim n)
    then show ?case by (simp add: code_share_1)
  qed
  ultimately show ?thesis by (rule Lim_transform_eventually)
qed

section \<open>The claims\<close>

subsection \<open>C1: chromosome-wide IBS over dense and over sparse strands\<close>

text \<open>
  C1 says that \<^verbatim>\<open>chromwide_ibs\<close> returns the same array for dense strands and for sparse
  strands built from the same allele sequences. On the strands of the repository's own
  test (\<^verbatim>\<open>test_chromwide_ibs\<close>) the dense call returns the array the test expects,
  \<open>[2, 2, 1, 0, 64]\<close>, and the sparse call raises AttributeError: the dense view of a
  sparse strand is \<^verbatim>\<open>todense\<close>, whose first name lookup fails.
\<close>

theorem chromwide_ibs_sparse_raises:
  "chromwide_ibs (Dense (IntArr [2, 1, 1, 1, 0])) (Dense (IntArr [2, 2, 2, 1, 0]))
     (Dense (IntArr [2, 1, 2, 2, 1])) (Dense (IntArr [2, 2, 2, 2, 1])) 64
     = Inr [2, 2, 1, 0, 64] \<and>
   chromwide_ibs
     (Sparse (SparseGenotypedChromosome_init (IntArr [2, 1, 1, 1, 0])))
     (Sparse (SparseGenotypedChromosome_init (IntArr [2, 2, 2, 1, 0])))
     (Sparse (SparseGenotypedChromosome_init (IntArr [2, 1, 2, 2, 1])))
     (Sparse (SparseGenotypedChromosome_init (IntArr [2, 2, 2, 2, 1]))) 64
     = Inl AttributeError"
proof
  show "chromwide_ibs (Dense (IntArr [2, 1, 1, 1, 0])) (Dense (IntArr [2, 2, 2, 1, 0]))
     (Dense (IntArr [2, 1, 2, 2, 1])) (Dense (IntArr [2, 2, 2, 2, 1])) 64
     = Inr [2, 2, 1, 0, 64]"
    by (simp add: chromwide_ibs_def ibs_states_def ibs_def all_missing_def missing_code_def
        shared_pair del: mset.simps)
  show "chromwide_ibs
     (Sparse (SparseGenotypedChromosome_init (IntArr [2, 1, 1, 1, 0])))
     (Sparse (SparseGenotypedChromosome_init (IntArr [2, 2, 2, 1, 0])))
     (Sparse (SparseGenotypedChromosome_init (IntArr [2, 1, 2, 2, 1])))
     (Sparse (SparseGenotypedChromosome_init (IntArr [2, 2, 2, 2, 1]))) 64
     = Inl AttributeError"
    by (simp add: chromwide_ibs_def SparseGenotypedChromosome_init_def todense_def numpy_names_def)
qed

subsection \<open>C2: equality of two sparse containers\<close>

text \<open>
  C2 says that an index held non-reference in both sparse containers is marked equal
  exactly when the two alleles stored for that index are equal. The second loop of
  \<^verbatim>\<open>__eq__\<close> reads the pair lists at list position \<open>i\<close> instead. For the integer
  sequences \<open>[0, 3, 4]\<close> and \<open>[5, 3, 0]\<close>, index 1 holds allele 3 in both, yet the mask is
  False there (the pairs at list position 1 are \<open>(2, 4)\<close> and \<open>(1, 3)\<close>). For \<open>[0, 1]\<close> and
  \<open>[0, 2]\<close> the shared index 1 is past the end of both one-element lists and the call
  raises IndexError.
\<close>

theorem sparse_eq_reads_list_positions:
  "sparse_eq (SparseGenotypedChromosome_init (IntArr [0, 3, 4]))
             (SparseGenotypedChromosome_init (IntArr [5, 3, 0])) = Inr [False, False, False] \<and>
   sparse_eq (SparseGenotypedChromosome_init (IntArr [0, 1]))
             (SparseGenotypedChromosome_init (IntArr [0, 2])) = Inl IndexError"
  by (simp add: sparse_eq_def SparseGenotypedChromosome_init_def array2nonref_def
      array2missing_def symmetric_difference_def intersection_def)

subsection \<open>C3: sparse round trip\<close>

text \<open>
  C3 says that a sparse container converted back with \<^verbatim>\<open>todense\<close> gives the sequence it
  was built from. For every source array the call raises AttributeError instead
  (\<^verbatim>\<open>np.zeroes\<close> is not a name of numpy), so it returns no sequence at all.
\<close>

theorem todense_raises_AttributeError:
  "todense (SparseGenotypedChromosome_init data) = Inl AttributeError \<and>
   todense (SparseGenotypedChromosome_init data) \<noteq> Inr data"
  by (simp add: todense_def numpy_names_def)

subsection \<open>C4: single-marker IBS is commutative\<close>

text \<open>
  C4: for all genotype pairs \<open>a\<close> and \<open>b\<close> and every \<^verbatim>\<open>missing_value\<close>,
  \<^verbatim>\<open>ibs(a, b) == ibs(b, a)\<close>.
\<close>

theorem ibs_commutative: "ibs a b missing_value = ibs b a missing_value"
  by (simp add: ibs_def multiset_inter_commute disj_commute)

text \<open>An instance of C4: one shared allele either way round.\<close>

theorem ibs_commutative_witness:
  "ibs (IntA 2, IntA 1) (IntA 2, IntA 2) None = ibs (IntA 2, IntA 2) (IntA 2, IntA 1) None"
  by (rule ibs_commutative)

subsection \<open>C5: the missing mask of a sparse container\<close>

text \<open>
  C5 says that the mask is true exactly where the source holds the missing sentinel of
  its type, 0 for integer codes. \<^verbatim>\<open>__array2missing\<close> compares every element with the empty
  string only, so for the integer sequence \<open>[0, 1]\<close> the sparse mask is False at the
  missing index 0, where the dense container's \<^verbatim>\<open>missing\<close> is True.
\<close>

theorem sparse_missing_ignores_integer_zero:
  "sparse_missing (SparseGenotypedChromosome_init (IntArr [0, 1])) = Inr [False, False] \<and>
   dense_missing (IntArr [0, 1]) = [True, False]"
  by (simp add: sparse_missing_def SparseGenotypedChromosome_init_def array2nonref_def
      array2missing_def)

subsection \<open>C6: ordering comparisons on the dense container\<close>

text \<open>
  C6 says that each of \<^verbatim>\<open><\<close>, \<^verbatim>\<open>>\<close>, \<^verbatim>\<open><=\<close>, \<^verbatim>\<open>>=\<close> raises NotMeaningfulError. \<^verbatim>\<open><\<close> and \<^verbatim>\<open>>\<close> do,
  for every pair of operands. The methods meant for the other two are named \<^verbatim>\<open>__lte__\<close>
  and \<^verbatim>\<open>__gte__\<close>, which no operator looks up, so \<^verbatim>\<open><=\<close> and \<^verbatim>\<open>>=\<close> run numpy's
  comparison and return a mask.
\<close>

theorem le_ge_return_a_mask:
  "compare Lt self other = Inl NotMeaningfulError \<and>
   compare Gt self other = Inl NotMeaningfulError \<and>
   compare Le (IntArr [1, 2]) (IntArr [1, 3]) = Inr (Mask [True, True]) \<and>
   compare Ge (IntArr [1, 2]) (IntArr [1, 3]) = Inr (Mask [True, False])"
  by (simp add: compare_def GenotypedChromosome_methods_def broadcast2_def)

subsection \<open>C7: comparing containers of different marker counts\<close>

text \<open>
  C7 says that dense equality, sparse equality and \<^verbatim>\<open>chromwide_ibs\<close> all raise a value
  error on containers of different marker counts. The dense container has no \<^verbatim>\<open>__eq__\<close>
  of its own: \<^verbatim>\<open>==\<close> is numpy's, which broadcasts a one-marker container against a
  three-marker one and returns a mask.
\<close>

theorem dense_eq_broadcasts_counterexample:
  "shape0 (IntArr [1]) \<noteq> shape0 (IntArr [1, 2, 3]) \<and>
   dense_eq (IntArr [1]) (IntArr [1, 2, 3]) = Mask [True, False, False]"
  by (simp add: broadcast2_def)

text \<open>
  C7 as amended: sparse equality raises ValueError whenever the two sizes differ, and
  \<^verbatim>\<open>chromwide_ibs\<close> raises ValueError whenever the four strands do not all have the same
  marker count; dense equality has no size check of its own, and a container of one
  marker compared with a container of any length gives a mask of that length.
\<close>

theorem size_mismatch_amended:
  "(size_sp u \<noteq> size_sp v \<longrightarrow> sparse_eq u v = Inl ValueError) \<and>
   (\<not> (marker_count b = marker_count a \<and> marker_count c = marker_count a
        \<and> marker_count d = marker_count a)
      \<longrightarrow> chromwide_ibs a b c d missing_value = Inl ValueError) \<and>
   dense_eq (IntArr [x]) (IntArr ys) = Mask (map (\<lambda>y. x = y) ys) \<and>
   dense_eq (IntArr ys) (IntArr [x]) = Mask (map (\<lambda>y. y = x) ys) \<and>
   dense_eq (StrArr [s]) (StrArr ss) = Mask (map (\<lambda>y. s = y) ss) \<and>
   dense_eq (StrArr ss) (StrArr [s]) = Mask (map (\<lambda>y. y = s) ss)"
proof (intro conjI impI)
  show "sparse_eq u v = Inl ValueError" if "size_sp u \<noteq> size_sp v"
    using that by (rule sparse_eq_size_mismatch)
  show "chromwide_ibs a b c d missing_value = Inl ValueError"
    if "\<not> (marker_count b = marker_count a \<and> marker_count c = marker_count a
            \<and> marker_count d = marker_count a)"
    using that by (rule chromwide_size_mismatch)
qed (simp_all add: broadcast2_single_left broadcast2_single_right)

text \<open>
  An instance of the amended C7: sparse containers of one and of two markers, four
  strands of which one is longer, and a one-marker dense container against two markers.
\<close>

theorem size_mismatch_amended_witness:
  "size_sp (SparseGenotypedChromosome_init (IntArr [1]))
     \<noteq> size_sp (SparseGenotypedChromosome_init (IntArr [1, 2])) \<and>
   sparse_eq (SparseGenotypedChromosome_init (IntArr [1]))
             (SparseGenotypedChromosome_init (IntArr [1, 2])) = Inl ValueError \<and>
   chromwide_ibs (Dense (IntArr [1])) (Dense (IntArr [1, 2])) (Dense (IntArr [1]))
     (Sparse (SparseGenotypedChromosome_init (IntArr [2]))) 64 = Inl ValueError \<and>
   dense_eq (IntArr [2]) (IntArr [1, 2]) = Mask [False, True]"
  using size_mismatch_amended
    [of "SparseGenotypedChromosome_init (IntArr [1])"
        "SparseGenotypedChromosome_init (IntArr [1, 2])"
        "Dense (IntArr [1, 2])" "Dense (IntArr [1])" "Dense (IntArr [1])"
        "Sparse (SparseGenotypedChromosome_init (IntArr [2]))" 64 2 "[1, 2]"]
  by (simp add: SparseGenotypedChromosome_init_def)

subsection \<open>C8: the allele code drawn at a marker\<close>

text \<open>
  What the two generators compute, for every template whose four sequences have equal
  length and whose frequencies are all set (each in \<open>[0, 1]\<close>): marker \<open>i\<close> of the
  chromosome made by \<^verbatim>\<open>linkageequilibrium_chromosome\<close>, and of each chromosome made by
  \<^verbatim>\<open>linkageequilibrium_chromosomes\<close>, is \<open>allele_code\<close> of that marker's own draw and
  \<open>frequency[i]\<close>; the draws of \<open>[0, 1)\<close> mapped to code 2 are exactly those above
  \<open>frequency[i]\<close>, a set of measure \<open>1 - frequency[i]\<close> (the share of equally spaced
  draws mapped to code 2 tends to \<open>1 - frequency[i]\<close>), and code 1 has measure
  \<open>frequency[i]\<close>.
\<close>

lemma generated_code_by_draw:
  assumes "equal_lengths t"
    and "list_all (\<lambda>f. 0 \<le> f \<and> f \<le> 1) (frequencies t)"
    and "i < nmark t"
    and "j < nchrom"
  shows
    "(\<exists>codes. linkageequilibrium_chromosome t random = Inr (IntArr codes) \<and>
        length codes = nmark t \<and>
        codes ! i = allele_code (random i) (frequencies t ! i)) \<and>
     (\<exists>chroms codes. linkageequilibrium_chromosomes t nchrom random = Inr chroms \<and>
        length chroms = nchrom \<and> chroms ! j = IntArr codes \<and> length codes = nmark t \<and>
        codes ! i = allele_code (random (j * nmark t + i)) (frequencies t ! i)) \<and>
     {x. 0 \<le> x \<and> x < 1 \<and> allele_code x (frequencies t ! i) = 2} = {frequencies t ! i<..<1} \<and>
     (\<lambda>n. code_share 2 (frequencies t ! i) n) \<longlonglongrightarrow> 1 - frequencies t ! i \<and>
     (\<lambda>n. code_share 1 (frequencies t ! i) n) \<longlonglongrightarrow> frequencies t ! i"
proof -
  have len: "length (frequencies t) = nmark t"
    using assms(1) by (simp add: equal_lengths_def nmark_def)
  have range: "0 \<le> frequencies t ! i \<and> frequencies t ! i \<le> 1"
    using assms(2,3) len by (simp add: list_all_length)
  have set: "list_all (\<lambda>f. 0 \<le> f) (frequencies t)"
    using assms(2) by (simp add: list_all_iff)
  have one: "\<exists>codes. linkageequilibrium_chromosome t random = Inr (IntArr codes) \<and>
        length codes = nmark t \<and>
        codes ! i = allele_code (random i) (frequencies t ! i)"
    using assms(3) by (simp add: generate_one[OF assms(1) set])
  have many: "\<exists>chroms codes. linkageequilibrium_chromosomes t nchrom random = Inr chroms \<and>
        length chroms = nchrom \<and> chroms ! j = IntArr codes \<and> length codes = nmark t \<and>
        codes ! i = allele_code (random (j * nmark t + i)) (frequencies t ! i)"
    using assms(3,4) by (simp add: generate_many[OF assms(1)])
  have draws: "{x. 0 \<le> x \<and> x < 1 \<and> allele_code x (frequencies t ! i) = 2}
               = {frequencies t ! i<..<1}"
    using range by (simp add: code2_draws)
  have two: "(\<lambda>n. code_share 2 (frequencies t ! i) n) \<longlonglongrightarrow> 1 - frequencies t ! i"
    using range by (simp add: code_share_2_limit)
  have first: "(\<lambda>n. code_share 1 (frequencies t ! i) n) \<longlonglongrightarrow> frequencies t ! i"
    using range by (simp add: code_share_1_limit)
  from one many draws two first show ?thesis by (intro conjI)
qed

text \<open>
  An instance: one marker of frequency 1/4, so code 2 on the draws above 1/4, with
  measure 3/4, and code 1 with measure 1/4.
\<close>

lemma generated_code_by_draw_instance:
  "equal_lengths \<lparr> label = None, genetic_map = [0], physical_map = [None],
                   frequencies = [1 / 4], labels = [None] \<rparr> \<and>
   {x. 0 \<le> x \<and> x < 1 \<and> allele_code x (1 / 4) = 2} = {1 / 4<..<1} \<and>
   (\<lambda>n. code_share 2 (1 / 4) n) \<longlonglongrightarrow> 3 / 4 \<and>
   (\<lambda>n. code_share 1 (1 / 4) n) \<longlonglongrightarrow> 1 / 4"
proof -
  let ?t = "\<lparr> label = None, genetic_map = [0::real], physical_map = [None],
               frequencies = [1 / 4], labels = [None] \<rparr>"
  have eq: "equal_lengths ?t" by (simp add: equal_lengths_def)
  have set: "list_all (\<lambda>f. 0 \<le> f \<and> f \<le> 1) (frequencies ?t)" by simp
  have i: "0 < nmark ?t" by (simp add: nmark_def)
  have j: "(0::nat) < 1" by simp
  from generated_code_by_draw[OF eq set i j, of "\<lambda>k. 1 / 2"] eq show ?thesis by simp
qed

text \<open>
  C8 says that a generated chromosome has code 2 at marker \<open>i\<close> with probability
  \<open>frequency[i]\<close>: that the set of uniform draws mapped to code 2 has measure
  \<open>frequency[i]\<close>. The class's own documentation makes \<^verbatim>\<open>frequencies\<close> the frequencies of
  the minor allele, and the loader in io/genomesimla.py passes the minor-allele column.
  Both generators compare the other way round (\<^verbatim>\<open>r > self.frequencies\<close>), so the
  frequency goes to code 1. For a template of one marker with frequency 1/4: the draw
  1/2 gives code 2 and the draw 1/5 gives code 1, in one chromosome and in each of
  many; the draws of \<open>[0, 1)\<close> mapped to code 2 are the interval from 1/4 to 1, of
  measure 3/4; and the share of equally spaced draws mapped to code 2 does not tend to
  1/4.
\<close>

theorem code2_drawn_above_frequency:
  "linkageequilibrium_chromosome
     \<lparr> label = None, genetic_map = [0], physical_map = [None], frequencies = [1 / 4],
       labels = [None] \<rparr> (\<lambda>k. 1 / 2) = Inr (IntArr [2]) \<and>
   linkageequilibrium_chromosome
     \<lparr> label = None, genetic_map = [0], physical_map = [None], frequencies = [1 / 4],
       labels = [None] \<rparr> (\<lambda>k. 1 / 5) = Inr (IntArr [1]) \<and>
   linkageequilibrium_chromosomes
     \<lparr> label = None, genetic_map = [0], physical_map = [None], frequencies = [1 / 4],
       labels = [None] \<rparr> (Suc (Suc 0)) (\<lambda>k. if k = 0 then 1 / 2 else 1 / 5)
     = Inr [IntArr [2], IntArr [1]] \<and>
   {x. 0 \<le> x \<and> x < 1 \<and> allele_code x (1 / 4) = 2} = {1 / 4<..<1} \<and>
   (\<lambda>n. code_share 2 (1 / 4) n) \<longlonglongrightarrow> 3 / 4 \<and>
   \<not> (\<lambda>n. code_share 2 (1 / 4) n) \<longlonglongrightarrow> 1 / 4"
proof (intro conjI)
  show "linkageequilibrium_chromosome
     \<lparr> label = None, genetic_map = [0], physical_map = [None], frequencies = [1 / 4],
       labels = [None] \<rparr> (\<lambda>k. 1 / 2) = Inr (IntArr [2])"
    by (simp add: linkageequilibrium_chromosome_def nmark_def broadcast2_def allele_code_def)
  show "linkageequilibrium_chromosome
     \<lparr> label = None, genetic_map = [0], physical_map = [None], frequencies = [1 / 4],
       labels = [None] \<rparr> (\<lambda>k. 1 / 5) = Inr (IntArr [1])"
    by (simp add: linkageequilibrium_chromosome_def nmark_def broadcast2_def allele_code_def)
  show "linkageequilibrium_chromosomes
     \<lparr> label = None, genetic_map = [0], physical_map = [None], frequencies = [1 / 4],
       labels = [None] \<rparr> (Suc (Suc 0)) (\<lambda>k. if k = 0 then 1 / 2 else 1 / 5)
     = Inr [IntArr [2], IntArr [1]]"
    by (simp add: linkageequilibrium_chromosomes_def nmark_def broadcastable_def broadcast2_def
        allele_code_def)
  show "{x. 0 \<le> x \<and> x < 1 \<and> allele_code x (1 / 4) = 2} = {1 / 4<..<1}"
    by (rule code2_draws) simp
  have limit: "(\<lambda>n. code_share 2 (1 / 4) n) \<longlonglongrightarrow> 1 - 1 / 4"
    by (rule code_share_2_limit) simp_all
  then show "(\<lambda>n. code_share 2 (1 / 4) n) \<longlonglongrightarrow> 3 / 4" by simp
  show "\<not> (\<lambda>n. code_share 2 (1 / 4) n) \<longlonglongrightarrow> 1 / 4"
  proof
    assume "(\<lambda>n. code_share 2 (1 / 4) n) \<longlonglongrightarrow> 1 / 4"
    then have "(1 / 4 :: real) = 1 - 1 / 4" using limit by (rule LIMSEQ_unique)
    then show False by simp
  qed
qed

subsection \<open>C9: the four sequences of a template keep equal length\<close>

text \<open>
  C9: starting from a new template, after every call of a sequence of \<^verbatim>\<open>add_genotype\<close> and
  \<^verbatim>\<open>set_frequency\<close> calls (after the first \<open>k\<close> of them, for every \<open>k\<close>), \<^verbatim>\<open>genetic_map\<close>,
  \<^verbatim>\<open>physical_map\<close>, \<^verbatim>\<open>labels\<close> and \<^verbatim>\<open>frequencies\<close> have equal length. Calls that raise are
  included.
\<close>

theorem equal_lengths_invariant:
  "equal_lengths (foldl after_call (ChromosomeTemplate_init lab) (take k calls))"
  by (rule calls_keep) (simp add: equal_lengths_def ChromosomeTemplate_init_def)

text \<open>
  An instance of C9: two appends (one without a frequency), a refused append, a
  frequency correction and one out of range.
\<close>

theorem equal_lengths_invariant_witness:
  "equal_lengths
     (foldl after_call (ChromosomeTemplate_init None)
        (take 5 [AddGenotype (FreqNumber (1 / 10)) 0 None None,
                 AddGenotype FreqNone 1 (Some ''rs1'') (Some 100),
                 AddGenotype FreqRefused 2 None None,
                 SetFrequency 1 (1 / 2),
                 SetFrequency 7 (1 / 2)]))"
  by (rule equal_lengths_invariant)

subsection \<open>C10: what set_frequency changes\<close>

text \<open>
  C10: on a template with at least \<open>position + 1\<close> markers, \<^verbatim>\<open>set_frequency(position,
  frequency)\<close> returns normally and changes only the frequency entry at that position:
  \<^verbatim>\<open>label\<close>, \<^verbatim>\<open>genetic_map\<close>, \<^verbatim>\<open>physical_map\<close>, \<^verbatim>\<open>labels\<close> and every other entry of
  \<^verbatim>\<open>frequencies\<close> are unchanged. Markers are counted by \<^verbatim>\<open>nmark()\<close>, the length of
  \<^verbatim>\<open>genetic_map\<close>, and the write goes to \<^verbatim>\<open>frequencies\<close>, so the template is one whose
  sequences have equal length, as every template built by the two calls is.
\<close>

theorem set_frequency_frame:
  assumes "equal_lengths t" and "0 \<le> position" and "position + 1 \<le> int (nmark t)"
  shows "\<exists>t'. set_frequency t position frequency = Inr t' \<and>
           label t' = label t \<and> genetic_map t' = genetic_map t \<and>
           physical_map t' = physical_map t \<and> labels t' = labels t \<and>
           length (frequencies t') = length (frequencies t) \<and>
           frequencies t' ! nat position = frequency \<and>
           (\<forall>k. k \<noteq> nat position \<longrightarrow> frequencies t' ! k = frequencies t ! k)"
  using assms by (auto simp: set_frequency_def equal_lengths_def nmark_def Let_def)

text \<open>An instance of C10: the second of three frequencies is set to 1/2.\<close>

theorem set_frequency_frame_witness:
  "set_frequency
     \<lparr> label = Some ''1'', genetic_map = [0, 1, 2], physical_map = [None, None, None],
       frequencies = [1 / 10, - 1, 3 / 10], labels = [None, None, None] \<rparr> 1 (1 / 2)
   = Inr \<lparr> label = Some ''1'', genetic_map = [0, 1, 2], physical_map = [None, None, None],
           frequencies = [1 / 10, 1 / 2, 3 / 10], labels = [None, None, None] \<rparr>"
proof -
  let ?t = "\<lparr> label = Some ''1'', genetic_map = [0, 1, 2 :: real],
               physical_map = [None, None, None],
               frequencies = [1 / 10, - 1, 3 / 10], labels = [None, None, None] \<rparr>"
  have eq: "equal_lengths ?t" by (simp add: equal_lengths_def)
  have pos: "(0::int) \<le> 1" by simp
  have n: "(1::int) + 1 \<le> int (nmark ?t)" by (simp add: nmark_def)
  from set_frequency_frame[OF eq pos n, of "1 / 2"]
  obtain t' where t': "set_frequency ?t 1 (1 / 2) = Inr t'" by blast
  then show ?thesis by (simp add: set_frequency_def)
qed

end
